theory Spec2Isabelle
  imports Main "HOL-Library.AList" "HOL-Library.Sublist"
begin

section \<open>Escalation policy operations of the PagerDuty MCP server\<close>

text \<open>
  The development embeds \<^verbatim>\<open>src/pagerduty_mcp_server/escalation_policies.py\<close>:
  the three functions \<^verbatim>\<open>list_escalation_policies\<close>, \<^verbatim>\<open>show_escalation_policy\<close> and
  \<^verbatim>\<open>fetch_escalation_policy_ids\<close>. The modules they import (\<^verbatim>\<open>client\<close>,
  \<^verbatim>\<open>parsers\<close>, \<^verbatim>\<open>utils\<close>) are collaborators: the API client, the normalizer and the
  error router are parameters of the model, each one a function on the state of the
  outside world that either returns a value or raises.
\<close>

subsection \<open>Python values and exceptions\<close>

text \<open>
  The values that flow through the module: decoded JSON bodies, normalized records,
  envelopes and the implicit \<^verbatim>\<open>None\<close> of a function that falls off its end.
  A \<^verbatim>\<open>dict\<close> is an association list in insertion order, read with \<open>map_of\<close>.
\<close>

datatype pyval =
    PNone
  | PBool bool
  | PInt int
  | PStr string
  | PList "pyval list"
  | PDict "(string \<times> pyval) list"

text \<open>
  Instances of Python's \<^verbatim>\<open>Exception\<close>, the class that the handlers of the module
  catch. \<open>OtherError\<close> stands for every class that only a collaborator raises.
\<close>

datatype exn =
    ValueError string
  | RuntimeError string
  | KeyError string
  | TypeError
  | OtherError string

text \<open>\<^verbatim>\<open>v[k]\<close> with a string key: a missing key of a dict is a KeyError, and none of the
  other values can be subscripted with a string.\<close>

fun getitem :: "pyval \<Rightarrow> string \<Rightarrow> exn + pyval" where
  "getitem (PDict kvs) k = (case map_of kvs k of None \<Rightarrow> Inl (KeyError k) | Some v \<Rightarrow> Inr v)"
| "getitem v k = Inl TypeError"

text \<open>\<^verbatim>\<open>for x in v\<close>: the elements of a list, the keys of a dict, the characters of a
  string; the other values are not iterable.\<close>

fun iter_py :: "pyval \<Rightarrow> exn + pyval list" where
  "iter_py (PList xs) = Inr xs"
| "iter_py (PDict kvs) = Inr (map (\<lambda>kv. PStr (fst kv)) (AList.clearjunk kvs))"
| "iter_py (PStr s) = Inr (map (\<lambda>c. PStr [c]) s)"
| "iter_py v = Inl TypeError"

subsection \<open>The outside world\<close>

text \<open>The values of the query parameters: \<^verbatim>\<open>query\<close> is a string, \<^verbatim>\<open>user_ids[]\<close> and
  \<^verbatim>\<open>team_ids[]\<close> are lists of strings, \<^verbatim>\<open>limit\<close> is an integer.\<close>

datatype param = StrParam string | ListParam "string list" | IntParam int

type_synonym params = "(string \<times> param) list"

text \<open>Every call of a collaborator is recorded, with its arguments.\<close>

datatype event =
    GetApiClient
  | ListAll string params
  | JGet string
  | ParseEscalationPolicy pyval
  | HandleApiError exn

record 'w sys =
  world :: 'w
  trace :: "event list"

text \<open>
  The collaborators. \<open>'c\<close> is the client handle and \<open>'w\<close> the state of the world (the
  remote service, the cached client). \<open>utils_handle_api_error\<close> is expected to raise, yet
  nothing in the module prevents it from returning; \<open>utils_description\<close> is the
  descriptive text of the envelope, given the count and the resource name.
\<close>

record ('c, 'w) env =
  client_get_api_client :: "'w \<Rightarrow> (exn + 'c) \<times> 'w"
  pd_list_all :: "'c \<Rightarrow> string \<Rightarrow> params \<Rightarrow> 'w \<Rightarrow> (exn + pyval list) \<times> 'w"
  pd_jget :: "'c \<Rightarrow> string \<Rightarrow> 'w \<Rightarrow> (exn + pyval) \<times> 'w"
  parse_escalation_policy :: "pyval \<Rightarrow> 'w \<Rightarrow> (exn + (string \<times> pyval) list) \<times> 'w"
  utils_handle_api_error :: "exn \<Rightarrow> 'w \<Rightarrow> (exn + unit) \<times> 'w"
  utils_description :: "nat \<Rightarrow> string \<Rightarrow> string"

definition record_call :: "event \<Rightarrow> ('w \<Rightarrow> 'a \<times> 'w) \<Rightarrow> 'w sys \<Rightarrow> 'a \<times> 'w sys" where
  "record_call ev f s =
     (case f (world s) of (r, w') \<Rightarrow> (r, \<lparr>world = w', trace = trace s @ [ev]\<rparr>))"

definition call_get_api_client :: "('c, 'w) env \<Rightarrow> 'w sys \<Rightarrow> (exn + 'c) \<times> 'w sys" where
  "call_get_api_client env = record_call GetApiClient (client_get_api_client env)"

definition call_list_all ::
  "('c, 'w) env \<Rightarrow> 'c \<Rightarrow> string \<Rightarrow> params \<Rightarrow> 'w sys \<Rightarrow> (exn + pyval list) \<times> 'w sys" where
  "call_list_all env c path ps = record_call (ListAll path ps) (pd_list_all env c path ps)"

definition call_jget :: "('c, 'w) env \<Rightarrow> 'c \<Rightarrow> string \<Rightarrow> 'w sys \<Rightarrow> (exn + pyval) \<times> 'w sys" where
  "call_jget env c path = record_call (JGet path) (pd_jget env c path)"

definition call_parse ::
  "('c, 'w) env \<Rightarrow> pyval \<Rightarrow> 'w sys \<Rightarrow> (exn + (string \<times> pyval) list) \<times> 'w sys" where
  "call_parse env raw = record_call (ParseEscalationPolicy raw) (parse_escalation_policy env raw)"

definition call_handle_api_error :: "('c, 'w) env \<Rightarrow> exn \<Rightarrow> 'w sys \<Rightarrow> (exn + unit) \<times> 'w sys" where
  "call_handle_api_error env e = record_call (HandleApiError e) (utils_handle_api_error env e)"

text \<open>
  Modelled from the spec: \<^verbatim>\<open>utils.api_response_handler\<close> is not among the sources. The
  specification describes it as wrapping a single object or a list into the shape
  \<^verbatim>\<open>{<resource_name>: results, metadata: {count, description}}\<close>, the count being the
  number of results and 1 for a single object; there is no error block on this path.
\<close>

definition api_response_handler :: "('c, 'w) env \<Rightarrow> pyval \<Rightarrow> string \<Rightarrow> pyval" where
  "api_response_handler env results resource_name =
     (let n = (case results of PList xs \<Rightarrow> length xs | _ \<Rightarrow> 1)
      in PDict [(resource_name, results),
                (''metadata'', PDict [(''count'', PInt (int n)),
                                      (''description'', PStr (utils_description env n resource_name))])])"

subsection \<open>The module\<close>

definition ESCALATION_POLICIES_URL :: string where
  "ESCALATION_POLICIES_URL = ''/escalation_policies''"

text \<open>The clause \<^verbatim>\<open>except Exception as e: utils.handle_api_error(e)\<close> that closes each of
  the three functions: what the router raises is raised, and when the router returns,
  the function ends without a \<^verbatim>\<open>return\<close> and its value is \<^verbatim>\<open>None\<close>.\<close>

definition except_handler :: "('c, 'w) env \<Rightarrow> exn \<Rightarrow> 'w sys \<Rightarrow> (exn + pyval) \<times> 'w sys" where
  "except_handler env e s =
     (case call_handle_api_error env e s of
        (Inl e', s') \<Rightarrow> (Inl e', s')
      | (Inr _, s') \<Rightarrow> (Inr PNone, s'))"

text \<open>Lines 46 to 54: a filter enters the dict only when it is truthy, so \<^verbatim>\<open>None\<close>, the
  empty string, the empty list and zero all leave it out.\<close>

definition build_params ::
  "string option \<Rightarrow> string list option \<Rightarrow> string list option \<Rightarrow> int option \<Rightarrow> params" where
  "build_params query user_ids team_ids limit =
     (let params = [];
          params = (case query of
                      Some q \<Rightarrow> if q \<noteq> [] then AList.update ''query'' (StrParam q) params else params
                    | None \<Rightarrow> params);
          params = (case user_ids of
                      Some us \<Rightarrow> if us \<noteq> [] then AList.update ''user_ids[]'' (ListParam us) params else params
                    | None \<Rightarrow> params);
          params = (case team_ids of
                      Some ts \<Rightarrow> if ts \<noteq> [] then AList.update ''team_ids[]'' (ListParam ts) params else params
                    | None \<Rightarrow> params);
          params = (case limit of
                      Some l \<Rightarrow> if l \<noteq> 0 then AList.update ''limit'' (IntParam l) params else params
                    | None \<Rightarrow> params)
      in params)"

text \<open>Line 58, the comprehension over the response: the records are normalized from
  left to right and the first exception ends it.\<close>

fun parse_each ::
  "('c, 'w) env \<Rightarrow> pyval list \<Rightarrow> 'w sys \<Rightarrow> (exn + (string \<times> pyval) list list) \<times> 'w sys" where
  "parse_each env [] s = (Inr [], s)"
| "parse_each env (result # rest) s =
     (case call_parse env result s of
        (Inl e, s1) \<Rightarrow> (Inl e, s1)
      | (Inr d, s1) \<Rightarrow>
          (case parse_each env rest s1 of
             (Inl e, s2) \<Rightarrow> (Inl e, s2)
           | (Inr ds, s2) \<Rightarrow> (Inr (d # ds), s2)))"

text \<open>Lines 57 to 59, the body of the \<^verbatim>\<open>try\<close>.\<close>

definition list_try ::
  "('c, 'w) env \<Rightarrow> 'c \<Rightarrow> params \<Rightarrow> 'w sys \<Rightarrow> (exn + pyval) \<times> 'w sys" where
  "list_try env pd_client params s =
     (case call_list_all env pd_client ESCALATION_POLICIES_URL params s of
        (Inl e, s1) \<Rightarrow> (Inl e, s1)
      | (Inr response, s1) \<Rightarrow>
          (case parse_each env response s1 of
             (Inl e, s2) \<Rightarrow> (Inl e, s2)
           | (Inr parsed_response, s2) \<Rightarrow>
               (Inr (api_response_handler env (PList (map PDict parsed_response))
                       ''escalation_policies''), s2)))"

definition list_escalation_policies ::
  "('c, 'w) env \<Rightarrow> string option \<Rightarrow> string list option \<Rightarrow> string list option \<Rightarrow> int option
     \<Rightarrow> 'w sys \<Rightarrow> (exn + pyval) \<times> 'w sys" where
  "list_escalation_policies env query user_ids team_ids limit s =
     (case call_get_api_client env s of
        (Inl e, s1) \<Rightarrow> (Inl e, s1)
      | (Inr pd_client, s1) \<Rightarrow>
          (case list_try env pd_client (build_params query user_ids team_ids limit) s1 of
             (Inl e, s2) \<Rightarrow> except_handler env e s2
           | (Inr v, s2) \<Rightarrow> (Inr v, s2)))"

text \<open>Lines 90 to 99, the body of the \<^verbatim>\<open>try\<close> of \<^verbatim>\<open>show_escalation_policy\<close>. The inner
  handler turns a KeyError of the subscript, and nothing else, into a RuntimeError.\<close>

definition missing_field_message :: "string \<Rightarrow> string" where
  "missing_field_message policy_id =
     ''Failed to fetch escalation policy '' @ policy_id @
     '': Response missing 'escalation_policy' field''"

definition show_try ::
  "('c, 'w) env \<Rightarrow> 'c \<Rightarrow> string \<Rightarrow> 'w sys \<Rightarrow> (exn + pyval) \<times> 'w sys" where
  "show_try env pd_client policy_id s =
     (case call_jget env pd_client (ESCALATION_POLICIES_URL @ ''/'' @ policy_id) s of
        (Inl e, s1) \<Rightarrow> (Inl e, s1)
      | (Inr response, s1) \<Rightarrow>
          (case getitem response ''escalation_policy'' of
             Inl (KeyError k) \<Rightarrow> (Inl (RuntimeError (missing_field_message policy_id)), s1)
           | Inl e \<Rightarrow> (Inl e, s1)
           | Inr policy_data \<Rightarrow>
               (case call_parse env policy_data s1 of
                  (Inl e, s2) \<Rightarrow> (Inl e, s2)
                | (Inr d, s2) \<Rightarrow>
                    (Inr (api_response_handler env (PDict d) ''escalation_policy''), s2))))"

definition show_escalation_policy ::
  "('c, 'w) env \<Rightarrow> string option \<Rightarrow> 'w sys \<Rightarrow> (exn + pyval) \<times> 'w sys" where
  "show_escalation_policy env policy_id s =
     (case policy_id of
        None \<Rightarrow> (Inl (ValueError ''policy_id cannot be empty''), s)
      | Some p \<Rightarrow>
          if p = [] then (Inl (ValueError ''policy_id cannot be empty''), s)
          else
            (case call_get_api_client env s of
               (Inl e, s1) \<Rightarrow> (Inl e, s1)
             | (Inr pd_client, s1) \<Rightarrow>
                 (case show_try env pd_client p s1 of
                    (Inl e, s2) \<Rightarrow> except_handler env e s2
                  | (Inr v, s2) \<Rightarrow> (Inr v, s2))))"

text \<open>Line 133, the comprehension \<^verbatim>\<open>[result['id'] for result in ...]\<close>.\<close>

fun project_ids :: "pyval list \<Rightarrow> exn + pyval list" where
  "project_ids [] = Inr []"
| "project_ids (result # rest) =
     (case getitem result ''id'' of
        Inl e \<Rightarrow> Inl e
      | Inr i \<Rightarrow> (case project_ids rest of Inl e \<Rightarrow> Inl e | Inr ids \<Rightarrow> Inr (i # ids)))"

text \<open>Lines 132 and 133, the body of the \<^verbatim>\<open>try\<close> of \<^verbatim>\<open>fetch_escalation_policy_ids\<close>.\<close>

definition fetch_try :: "('c, 'w) env \<Rightarrow> string \<Rightarrow> 'w sys \<Rightarrow> (exn + pyval) \<times> 'w sys" where
  "fetch_try env user_id s =
     (case list_escalation_policies env None (Some [user_id]) None None s of
        (Inl e, s1) \<Rightarrow> (Inl e, s1)
      | (Inr results, s1) \<Rightarrow>
          (case getitem results ''escalation_policies'' of
             Inl e \<Rightarrow> (Inl e, s1)
           | Inr policies \<Rightarrow>
               (case iter_py policies of
                  Inl e \<Rightarrow> (Inl e, s1)
                | Inr rs \<Rightarrow>
                    (case project_ids rs of
                       Inl e \<Rightarrow> (Inl e, s1)
                     | Inr ids \<Rightarrow> (Inr (PList ids), s1)))))"

definition fetch_escalation_policy_ids ::
  "('c, 'w) env \<Rightarrow> string option \<Rightarrow> 'w sys \<Rightarrow> (exn + pyval) \<times> 'w sys" where
  "fetch_escalation_policy_ids env user_id s =
     (case user_id of
        None \<Rightarrow> (Inl (ValueError ''user_id cannot be empty''), s)
      | Some u \<Rightarrow>
          if u = [] then (Inl (ValueError ''user_id cannot be empty''), s)
          else
            (case fetch_try env u s of
               (Inl e, s1) \<Rightarrow> except_handler env e s1
             | (Inr v, s1) \<Rightarrow> (Inr v, s1)))"

subsection \<open>Observations on traces and envelopes\<close>

text \<open>The events that are requests to the remote service.\<close>

fun is_request :: "event \<Rightarrow> bool" where
  "is_request (ListAll path ps) = True"
| "is_request (JGet path) = True"
| "is_request ev = False"

text \<open>\<^verbatim>\<open>envelope['metadata']['count']\<close>.\<close>

definition metadata_count :: "pyval \<Rightarrow> exn + pyval" where
  "metadata_count envelope =
     (case getitem envelope ''metadata'' of Inl e \<Rightarrow> Inl e | Inr m \<Rightarrow> getitem m ''count'')"

subsection \<open>A concrete world for the examples\<close>

text \<open>
  A remote service with two policies, \<open>EP1\<close> and \<open>EP2\<close>. The world counts the calls made;
  the normalizer keeps the \<open>id\<close> and the \<open>name\<close> of a record and raises on anything that is
  not a dict; a listing fails for the query \<open>down\<close> and holds a malformed record for \<open>bad\<close>;
  the router raises a RuntimeError whatever it is given.
\<close>

definition raw_policy :: "string \<Rightarrow> string \<Rightarrow> pyval" where
  "raw_policy i n = PDict [(''id'', PStr i), (''name'', PStr n), (''type'', PStr ''escalation_policy'')]"

definition demo_parse :: "pyval \<Rightarrow> nat \<Rightarrow> (exn + (string \<times> pyval) list) \<times> nat" where
  "demo_parse raw w =
     (case raw of
        PDict kvs \<Rightarrow> (Inr (filter (\<lambda>kv. fst kv = ''id'' \<or> fst kv = ''name'') kvs), Suc w)
      | _ \<Rightarrow> (Inl (OtherError ''cannot parse''), Suc w))"

definition demo_jget :: "unit \<Rightarrow> string \<Rightarrow> nat \<Rightarrow> (exn + pyval) \<times> nat" where
  "demo_jget c path w =
     (if path = ''/escalation_policies/EP1''
        then (Inr (PDict [(''escalation_policy'', raw_policy ''EP1'' ''Primary'')]), Suc w)
      else if path = ''/escalation_policies/EP2''
        then (Inr (PDict [(''policy'', raw_policy ''EP2'' ''Secondary'')]), Suc w)
      else if path = ''/escalation_policies/EP3''
        then (Inr (PDict [(''escalation_policy'', PStr ''gone'')]), Suc w)
      else (Inl (OtherError ''404''), Suc w))"

definition demo_list_all :: "unit \<Rightarrow> string \<Rightarrow> params \<Rightarrow> nat \<Rightarrow> (exn + pyval list) \<times> nat" where
  "demo_list_all c path ps w =
     (if path \<noteq> ''/escalation_policies'' then (Inl (OtherError ''404''), Suc w)
      else if map_of ps ''query'' = Some (StrParam ''down'') then (Inl (OtherError ''503''), Suc w)
      else if map_of ps ''query'' = Some (StrParam ''bad'')
        then (Inr [raw_policy ''EP1'' ''Primary'', PStr ''garbage''], Suc w)
      else if map_of ps ''user_ids[]'' = Some (ListParam [''U0'']) then (Inr [], Suc w)
      else if map_of ps ''user_ids[]'' = Some (ListParam [''U9''])
        then (Inr [raw_policy ''EP1'' ''Primary'', PDict [(''name'', PStr ''Orphan'')]], Suc w)
      else (Inr [raw_policy ''EP1'' ''Primary'', raw_policy ''EP2'' ''Secondary''], Suc w))"

definition demo_handle_api_error :: "exn \<Rightarrow> nat \<Rightarrow> (exn + unit) \<times> nat" where
  "demo_handle_api_error e w = (Inl (RuntimeError ''API request failed''), Suc w)"

definition demo_description :: "nat \<Rightarrow> string \<Rightarrow> string" where
  "demo_description n resource_name =
     (if n = 1 then ''Found 1 result for '' else ''Found results for '') @ resource_name"

definition demo_env :: "(unit, nat) env" where
  "demo_env =
     \<lparr>client_get_api_client = (\<lambda>w. (Inr (), Suc w)),
      pd_list_all = demo_list_all,
      pd_jget = demo_jget,
      parse_escalation_policy = demo_parse,
      utils_handle_api_error = demo_handle_api_error,
      utils_description = demo_description\<rparr>"


definition s0 :: "nat sys" where
  "s0 = \<lparr>world = 0, trace = []\<rparr>"

section \<open>Properties\<close>

subsection \<open>Traces of the collaborator calls\<close>

lemma record_call_trace: "record_call ev f s = (r, s') \<Longrightarrow> trace s' = trace s @ [ev]"
  by (auto simp: record_call_def split: prod.splits)

lemma except_handler_result:
  assumes "except_handler env e s = (r, s')"
  shows "trace s' = trace s @ [HandleApiError e]" and "r = Inr PNone \<or> (\<exists>e'. r = Inl e')"
  using assms
  by (auto simp: except_handler_def call_handle_api_error_def split: prod.splits sum.splits
      dest: record_call_trace)

lemma parse_each_requests:
  "parse_each env rs s = (r, s') \<Longrightarrow> filter is_request (trace s') = filter is_request (trace s)"
proof (induction rs arbitrary: s r s')
  case Nil
  then show ?case by simp
next
  case (Cons a rs)
  then show ?case
    by (auto simp: call_parse_def split: prod.splits sum.splits dest!: record_call_trace)
qed


subsection \<open>Showing one policy\<close>

text \<open>
  C1. A call of \<^verbatim>\<open>show_escalation_policy\<close> whose \<^verbatim>\<open>policy_id\<close> is \<^verbatim>\<open>None\<close> or the empty
  string raises the ValueError of line 85 and leaves the state as it found it: the trace
  gains no event, so the client was not obtained, no request was made and the error
  router was not called; the error reaches the caller as it was raised.
\<close>

theorem show_empty_policy_id_raises:
  "policy_id = None \<or> policy_id = Some [] \<Longrightarrow>
   show_escalation_policy env policy_id s = (Inl (ValueError ''policy_id cannot be empty''), s)"
  by (auto simp: show_escalation_policy_def)

theorem show_empty_policy_id_raises_witness:
  "(Some [] = (None :: string option) \<or> Some [] = Some ([] :: string)) \<and>
   show_escalation_policy demo_env (Some []) s0 =
     (Inl (ValueError ''policy_id cannot be empty''), s0) \<and>
   trace s0 = [] \<and>
   fst (utils_handle_api_error demo_env (ValueError ''policy_id cannot be empty'') 0) =
     Inl (RuntimeError ''API request failed'')"
  using show_empty_policy_id_raises [of "Some []" demo_env s0]
  by (simp add: s0_def demo_env_def demo_handle_api_error_def)





lemma demo_client: "call_get_api_client demo_env s0 = (Inr (), \<lparr>world = 1, trace = [GetApiClient]\<rparr>)"
  by (simp add: call_get_api_client_def record_call_def demo_env_def s0_def)


lemma sublist_missing_field_message:
  "sublist p (missing_field_message p)" "sublist ''escalation_policy'' (missing_field_message p)"
proof -
  show "sublist p (missing_field_message p)"
    unfolding missing_field_message_def sublist_def by blast
  have "missing_field_message p =
      (''Failed to fetch escalation policy '' @ p @ '': Response missing '' @ [CHR 0x27]) @
      ''escalation_policy'' @ ([CHR 0x27] @ '' field'')"
    by (simp add: missing_field_message_def)
  then show "sublist ''escalation_policy'' (missing_field_message p)"
    unfolding sublist_def by blast
qed

text \<open>
  C3. For a non-empty \<^verbatim>\<open>policy_id\<close>, when the body returned by the request is an object
  without the field \<^verbatim>\<open>escalation_policy\<close>, the call ends in the handler of line 100 applied
  to a RuntimeError, not a ValueError, whose message holds both the name of the field and
  the requested identifier. The trace shows the client, the request and the router, and no
  call of the normalizer.
\<close>

theorem show_missing_field_is_routed:
  assumes "p \<noteq> []" and "call_get_api_client env s = (Inr c, s1)"
    and "call_jget env c (''/escalation_policies/'' @ p) s1 = (Inr (PDict kvs), s2)"
    and "map_of kvs ''escalation_policy'' = None"
  shows "show_escalation_policy env (Some p) s =
           except_handler env (RuntimeError (missing_field_message p)) s2 \<and>
         trace (snd (show_escalation_policy env (Some p) s)) =
           trace s @ [GetApiClient, JGet (''/escalation_policies/'' @ p),
                      HandleApiError (RuntimeError (missing_field_message p))] \<and>
         missing_field_message p =
           ''Failed to fetch escalation policy '' @ p @
           '': Response missing 'escalation_policy' field'' \<and>
         sublist p (missing_field_message p) \<and>
         sublist ''escalation_policy'' (missing_field_message p) \<and>
         (\<forall>m. RuntimeError (missing_field_message p) \<noteq> ValueError m)"
proof -
  have t1: "trace s1 = trace s @ [GetApiClient]"
    using assms(2) by (simp add: call_get_api_client_def record_call_trace)
  have t2: "trace s2 = trace s1 @ [JGet (''/escalation_policies/'' @ p)]"
    using assms(3) by (simp add: call_jget_def record_call_trace)
  have res: "show_escalation_policy env (Some p) s =
      except_handler env (RuntimeError (missing_field_message p)) s2"
    using assms by (simp add: show_escalation_policy_def show_try_def ESCALATION_POLICIES_URL_def)
  obtain r s' where eh: "except_handler env (RuntimeError (missing_field_message p)) s2 = (r, s')"
    by (cases "except_handler env (RuntimeError (missing_field_message p)) s2")
  have "trace s' = trace s2 @ [HandleApiError (RuntimeError (missing_field_message p))]"
    using eh by (rule except_handler_result(1))
  then have tr: "trace (snd (show_escalation_policy env (Some p) s)) =
      trace s @ [GetApiClient, JGet (''/escalation_policies/'' @ p),
                 HandleApiError (RuntimeError (missing_field_message p))]"
    using res eh t1 t2 by simp
  show ?thesis
    using res tr sublist_missing_field_message [of p]
    by (simp add: missing_field_message_def)
qed

theorem show_missing_field_is_routed_witness:
  "''EP2'' \<noteq> [] \<and>
   call_get_api_client demo_env s0 = (Inr (), \<lparr>world = 1, trace = [GetApiClient]\<rparr>) \<and>
   map_of [(''policy'', raw_policy ''EP2'' ''Secondary'')] ''escalation_policy'' = None \<and>
   show_escalation_policy demo_env (Some ''EP2'') s0 =
     (Inl (RuntimeError ''API request failed''),
      \<lparr>world = 3,
         trace = [GetApiClient, JGet ''/escalation_policies/EP2'',
                  HandleApiError (RuntimeError
                    ''Failed to fetch escalation policy EP2: Response missing 'escalation_policy' field'')]\<rparr>)"
proof -
  let ?s1 = "\<lparr>world = 1, trace = [GetApiClient]\<rparr> :: nat sys"
  let ?s2 = "\<lparr>world = 2, trace = [GetApiClient, JGet ''/escalation_policies/EP2'']\<rparr> :: nat sys"
  have h1: "''EP2'' \<noteq> []" by simp
  have h2: "call_get_api_client demo_env s0 = (Inr (), ?s1)" by (rule demo_client)
  have h3: "call_jget demo_env () (''/escalation_policies/'' @ ''EP2'') ?s1 =
      (Inr (PDict [(''policy'', raw_policy ''EP2'' ''Secondary'')]), ?s2)"
    by (simp add: call_jget_def record_call_def demo_env_def demo_jget_def)
  have h4: "map_of [(''policy'', raw_policy ''EP2'' ''Secondary'')] ''escalation_policy'' = None"
    by simp
  have eh: "except_handler demo_env (RuntimeError (missing_field_message ''EP2'')) ?s2 =
     (Inl (RuntimeError ''API request failed''),
      \<lparr>world = 3,
         trace = [GetApiClient, JGet ''/escalation_policies/EP2'',
                  HandleApiError (RuntimeError
                    ''Failed to fetch escalation policy EP2: Response missing 'escalation_policy' field'')]\<rparr>)"
    by (simp add: except_handler_def call_handle_api_error_def record_call_def demo_env_def
        demo_handle_api_error_def missing_field_message_def)
  from show_missing_field_is_routed [OF h1 h2 h3 h4] eh h1 h2 h4 show ?thesis
    by simp
qed

subsection \<open>Listing policies\<close>

lemma build_params_empty_user_ids: "build_params q (Some []) t l = build_params q None t l"
  by (simp add: build_params_def)

lemma build_params_empty_team_ids: "build_params q u (Some []) l = build_params q u None l"
  by (simp add: build_params_def)

lemma build_params_zero_limit: "build_params q u t (Some 0) = build_params q u t None"
  by (simp add: build_params_def)

lemma map_of_build_params:
  "map_of (build_params q u t l) ''query'' =
     (case q of None \<Rightarrow> None | Some x \<Rightarrow> if x = [] then None else Some (StrParam x))"
  "map_of (build_params q u t l) ''user_ids[]'' =
     (case u of None \<Rightarrow> None | Some us \<Rightarrow> if us = [] then None else Some (ListParam us))"
  "map_of (build_params q u t l) ''team_ids[]'' =
     (case t of None \<Rightarrow> None | Some ts \<Rightarrow> if ts = [] then None else Some (ListParam ts))"
  "map_of (build_params q u t l) ''limit'' =
     (case l of None \<Rightarrow> None | Some n \<Rightarrow> if n = 0 then None else Some (IntParam n))"
  by (simp_all add: build_params_def update_conv' split: option.splits)

lemma list_depends_on_params:
  "build_params q u t l = build_params q' u' t' l' \<Longrightarrow>
   list_escalation_policies env q u t l s = list_escalation_policies env q' u' t' l' s"
  unfolding list_escalation_policies_def by (simp split: prod.splits sum.splits)

lemma list_try_requests:
  "list_try env c ps s = (r, s') \<Longrightarrow>
   filter is_request (trace s') =
     filter is_request (trace s) @ [ListAll ESCALATION_POLICIES_URL ps]"
  by (auto simp: list_try_def call_list_all_def split: prod.splits sum.splits
      dest!: record_call_trace parse_each_requests)

lemma list_requests:
  assumes "call_get_api_client env s = (Inr c, s1)"
    and "list_escalation_policies env q u t l s = (r, s')"
  shows "filter is_request (trace s') =
           filter is_request (trace s) @ [ListAll ESCALATION_POLICIES_URL (build_params q u t l)]"
proof -
  have t1: "trace s1 = trace s @ [GetApiClient]"
    using assms(1) by (simp add: call_get_api_client_def record_call_trace)
  obtain r2 s2 where tr: "list_try env c (build_params q u t l) s1 = (r2, s2)"
    by (cases "list_try env c (build_params q u t l) s1")
  have t2: "filter is_request (trace s2) =
      filter is_request (trace s) @ [ListAll ESCALATION_POLICIES_URL (build_params q u t l)]"
    using list_try_requests [OF tr] t1 by simp
  show ?thesis
  proof (cases r2)
    case (Inl e)
    then have "except_handler env e s2 = (r, s')"
      using assms tr by (simp add: list_escalation_policies_def)
    then have "trace s' = trace s2 @ [HandleApiError e]"
      by (rule except_handler_result(1))
    then show ?thesis using t2 by simp
  next
    case (Inr v)
    then have "s' = s2"
      using assms tr by (simp add: list_escalation_policies_def)
    then show ?thesis using t2 by simp
  qed
qed

lemma list_sends_build_params:
  assumes "call_get_api_client env s = (Inr c, s1)"
    and "list_escalation_policies env q u t l s = (r, s')"
  shows "\<exists>ps. filter is_request (trace s') =
                filter is_request (trace s) @ [ListAll ''/escalation_policies'' ps] \<and>
              ps = build_params q u t l"
  using list_requests [OF assms] by (simp add: ESCALATION_POLICIES_URL_def)

text \<open>
  C4. An empty \<^verbatim>\<open>user_ids\<close> (respectively \<^verbatim>\<open>team_ids\<close>) gives the same call as an absent one,
  whatever the other filters, the collaborators and the state. Once the client handle is
  obtained, the one request of a call is the listing of \<^verbatim>\<open>/escalation_policies\<close>, and the
  parameters of that request hold, under the key \<^verbatim>\<open>user_ids[]\<close> (respectively
  \<^verbatim>\<open>team_ids[]\<close>), a non-empty collection as the list itself, and nothing for an empty or
  an absent one.
\<close>

theorem list_empty_ids_same_as_absent:
  "list_escalation_policies env q (Some []) t l s = list_escalation_policies env q None t l s \<and>
   list_escalation_policies env q u (Some []) l s = list_escalation_policies env q u None l s \<and>
   (\<forall>c s1 r s'.
      call_get_api_client env s = (Inr c, s1) \<longrightarrow>
      list_escalation_policies env q u t l s = (r, s') \<longrightarrow>
      (\<exists>ps. filter is_request (trace s') =
               filter is_request (trace s) @ [ListAll ''/escalation_policies'' ps] \<and>
             map_of ps ''user_ids[]'' =
               (case u of None \<Rightarrow> None
                | Some us \<Rightarrow> if us = [] then None else Some (ListParam us)) \<and>
             map_of ps ''team_ids[]'' =
               (case t of None \<Rightarrow> None
                | Some ts \<Rightarrow> if ts = [] then None else Some (ListParam ts)))) \<and>
   build_params q (Some []) t l = build_params q None t l \<and>
   build_params q u (Some []) l = build_params q u None l \<and>
   map_of (build_params q (Some []) t l) ''user_ids[]'' = None \<and>
   map_of (build_params q u (Some []) l) ''team_ids[]'' = None \<and>
   (us \<noteq> [] \<longrightarrow> map_of (build_params q (Some us) t l) ''user_ids[]'' = Some (ListParam us)) \<and>
   (ts \<noteq> [] \<longrightarrow> map_of (build_params q u (Some ts) l) ''team_ids[]'' = Some (ListParam ts))"
proof -
  have sent: "\<exists>ps. filter is_request (trace s') =
               filter is_request (trace s) @ [ListAll ''/escalation_policies'' ps] \<and>
             map_of ps ''user_ids[]'' =
               (case u of None \<Rightarrow> None
                | Some us \<Rightarrow> if us = [] then None else Some (ListParam us)) \<and>
             map_of ps ''team_ids[]'' =
               (case t of None \<Rightarrow> None
                | Some ts \<Rightarrow> if ts = [] then None else Some (ListParam ts))"
    if "call_get_api_client env s = (Inr c, s1)"
      and "list_escalation_policies env q u t l s = (r, s')" for c s1 r s'
    using list_sends_build_params [OF that] map_of_build_params(2,3) [of q u t l]
    by auto
  have rest: "list_escalation_policies env q (Some []) t l s =
        list_escalation_policies env q None t l s \<and>
      list_escalation_policies env q u (Some []) l s =
        list_escalation_policies env q u None l s \<and>
      build_params q (Some []) t l = build_params q None t l \<and>
      build_params q u (Some []) l = build_params q u None l \<and>
      map_of (build_params q (Some []) t l) ''user_ids[]'' = None \<and>
      map_of (build_params q u (Some []) l) ''team_ids[]'' = None \<and>
      (us \<noteq> [] \<longrightarrow> map_of (build_params q (Some us) t l) ''user_ids[]'' = Some (ListParam us)) \<and>
      (ts \<noteq> [] \<longrightarrow> map_of (build_params q u (Some ts) l) ''team_ids[]'' = Some (ListParam ts))"
    using list_depends_on_params [OF build_params_empty_user_ids, where env = env and s = s]
      list_depends_on_params [OF build_params_empty_team_ids, where env = env and s = s]
    by (simp add: build_params_empty_user_ids build_params_empty_team_ids map_of_build_params)
  from sent rest show ?thesis by blast
qed

theorem list_empty_ids_same_as_absent_witness:
  "list_escalation_policies demo_env None (Some []) (Some [''T1'', ''T2'']) None s0 =
     list_escalation_policies demo_env None None (Some [''T1'', ''T2'']) None s0 \<and>
   list_escalation_policies demo_env None (Some []) (Some []) None s0 =
     list_escalation_policies demo_env None (Some []) None None s0 \<and>
   call_get_api_client demo_env s0 = (Inr (), \<lparr>world = 1, trace = [GetApiClient]\<rparr>) \<and>
   (\<exists>ps. filter is_request
            (trace (snd (list_escalation_policies demo_env None (Some [])
                           (Some [''T1'', ''T2'']) None s0))) =
            [ListAll ''/escalation_policies'' ps] \<and>
          map_of ps ''user_ids[]'' = None \<and>
          map_of ps ''team_ids[]'' = Some (ListParam [''T1'', ''T2'']))"
proof -
  let ?call = "list_escalation_policies demo_env None (Some []) (Some [''T1'', ''T2'']) None s0"
  note main = list_empty_ids_same_as_absent
    [where env = demo_env and q = None and u = "Some []" and t = "Some [''T1'', ''T2'']"
       and l = None and s = s0 and us = "[''U1'']" and ts = "[''T1'', ''T2'']"]
  have eq1: "?call = list_escalation_policies demo_env None None (Some [''T1'', ''T2'']) None s0"
    by (rule main [THEN conjunct1])
  have eq2: "list_escalation_policies demo_env None (Some []) (Some []) None s0 =
     list_escalation_policies demo_env None (Some []) None None s0"
    by (rule main [THEN conjunct2, THEN conjunct1])
  have "\<exists>ps. filter is_request (trace (snd ?call)) =
               filter is_request (trace s0) @ [ListAll ''/escalation_policies'' ps] \<and>
             map_of ps ''user_ids[]'' =
               (case Some ([] :: string list) of None \<Rightarrow> None
                | Some us \<Rightarrow> if us = [] then None else Some (ListParam us)) \<and>
             map_of ps ''team_ids[]'' =
               (case Some [''T1'', ''T2''] of None \<Rightarrow> None
                | Some ts \<Rightarrow> if ts = [] then None else Some (ListParam ts))"
    by (rule main [THEN conjunct2, THEN conjunct2, THEN conjunct1, rule_format,
          OF demo_client prod.collapse [symmetric]])
  then have sent: "\<exists>ps. filter is_request (trace (snd ?call)) =
            [ListAll ''/escalation_policies'' ps] \<and>
          map_of ps ''user_ids[]'' = None \<and>
          map_of ps ''team_ids[]'' = Some (ListParam [''T1'', ''T2''])"
    by (simp add: s0_def)
  from eq1 eq2 demo_client sent show ?thesis by (intro conjI)
qed

text \<open>
  C7. Once the client handle is obtained, the parameters of the listing request of a call
  hold, under the key \<^verbatim>\<open>limit\<close>, a non-zero \<^verbatim>\<open>limit\<close> as it is, and nothing for a \<^verbatim>\<open>limit\<close>
  that is zero or absent. A \<^verbatim>\<open>limit\<close> of zero gives the request parameters, and so the
  call, of an absent \<^verbatim>\<open>limit\<close>.
\<close>

theorem list_limit_passthrough:
  "(\<forall>c s1 r s'.
      call_get_api_client env s = (Inr c, s1) \<longrightarrow>
      list_escalation_policies env q u t l s = (r, s') \<longrightarrow>
      (\<exists>ps. filter is_request (trace s') =
               filter is_request (trace s) @ [ListAll ''/escalation_policies'' ps] \<and>
             map_of ps ''limit'' =
               (case l of None \<Rightarrow> None
                | Some n \<Rightarrow> if n = 0 then None else Some (IntParam n)))) \<and>
   list_escalation_policies env q u t (Some 0) s = list_escalation_policies env q u t None s \<and>
   build_params q u t (Some 0) = build_params q u t None \<and>
   (n \<noteq> 0 \<longrightarrow> map_of (build_params q u t (Some n)) ''limit'' = Some (IntParam n)) \<and>
   map_of (build_params q u t (Some 0)) ''limit'' = None \<and>
   map_of (build_params q u t None) ''limit'' = None"
proof -
  have sent: "\<exists>ps. filter is_request (trace s') =
               filter is_request (trace s) @ [ListAll ''/escalation_policies'' ps] \<and>
             map_of ps ''limit'' =
               (case l of None \<Rightarrow> None
                | Some n \<Rightarrow> if n = 0 then None else Some (IntParam n))"
    if "call_get_api_client env s = (Inr c, s1)"
      and "list_escalation_policies env q u t l s = (r, s')" for c s1 r s'
    using list_sends_build_params [OF that] map_of_build_params(4) [of q u t l]
    by auto
  have rest: "list_escalation_policies env q u t (Some 0) s =
        list_escalation_policies env q u t None s \<and>
      build_params q u t (Some 0) = build_params q u t None \<and>
      (n \<noteq> 0 \<longrightarrow> map_of (build_params q u t (Some n)) ''limit'' = Some (IntParam n)) \<and>
      map_of (build_params q u t (Some 0)) ''limit'' = None \<and>
      map_of (build_params q u t None) ''limit'' = None"
    using list_depends_on_params [OF build_params_zero_limit, where env = env and s = s]
    by (simp add: build_params_zero_limit map_of_build_params)
  from sent rest show ?thesis by blast
qed

theorem list_limit_passthrough_witness:
  "call_get_api_client demo_env s0 = (Inr (), \<lparr>world = 1, trace = [GetApiClient]\<rparr>) \<and>
   (\<exists>ps. filter is_request
            (trace (snd (list_escalation_policies demo_env None None None (Some 25) s0))) =
            [ListAll ''/escalation_policies'' ps] \<and>
          map_of ps ''limit'' = Some (IntParam 25)) \<and>
   (\<exists>ps. filter is_request
            (trace (snd (list_escalation_policies demo_env None None None (Some 0) s0))) =
            [ListAll ''/escalation_policies'' ps] \<and>
          map_of ps ''limit'' = None) \<and>
   list_escalation_policies demo_env None None None (Some 0) s0 =
     list_escalation_policies demo_env None None None None s0"
proof -
  let ?c25 = "list_escalation_policies demo_env None None None (Some 25) s0"
  let ?c0 = "list_escalation_policies demo_env None None None (Some 0) s0"
  note m25 = list_limit_passthrough
    [where env = demo_env and q = None and u = None and t = None and l = "Some 25"
       and s = s0 and n = 25]
  note m0 = list_limit_passthrough
    [where env = demo_env and q = None and u = None and t = None and l = "Some 0"
       and s = s0 and n = 25]
  have "\<exists>ps. filter is_request (trace (snd ?c25)) =
               filter is_request (trace s0) @ [ListAll ''/escalation_policies'' ps] \<and>
             map_of ps ''limit'' =
               (case Some (25 :: int) of None \<Rightarrow> None
                | Some n \<Rightarrow> if n = 0 then None else Some (IntParam n))"
    by (rule m25 [THEN conjunct1, rule_format, OF demo_client prod.collapse [symmetric]])
  then have a: "\<exists>ps. filter is_request (trace (snd ?c25)) = [ListAll ''/escalation_policies'' ps] \<and>
          map_of ps ''limit'' = Some (IntParam 25)"
    by (simp add: s0_def)
  have "\<exists>ps. filter is_request (trace (snd ?c0)) =
               filter is_request (trace s0) @ [ListAll ''/escalation_policies'' ps] \<and>
             map_of ps ''limit'' =
               (case Some (0 :: int) of None \<Rightarrow> None
                | Some n \<Rightarrow> if n = 0 then None else Some (IntParam n))"
    by (rule m0 [THEN conjunct1, rule_format, OF demo_client prod.collapse [symmetric]])
  then have b: "\<exists>ps. filter is_request (trace (snd ?c0)) = [ListAll ''/escalation_policies'' ps] \<and>
          map_of ps ''limit'' = None"
    by (simp add: s0_def)
  have c: "?c0 = list_escalation_policies demo_env None None None None s0"
    by (rule m0 [THEN conjunct2, THEN conjunct1])
  from demo_client a b c show ?thesis by (intro conjI)
qed

lemma list_try_Inr:
  assumes "list_try env c ps s = (Inr v, s')"
  shows "\<exists>rs sa ds. call_list_all env c ESCALATION_POLICIES_URL ps s = (Inr rs, sa) \<and>
           parse_each env rs sa = (Inr ds, s') \<and>
           v = api_response_handler env (PList (map PDict ds)) ''escalation_policies''"
  using assms by (auto simp: list_try_def split: prod.splits sum.splits)

lemma list_Inr:
  assumes "list_escalation_policies env q u t l s = (Inr v, s')"
  shows "v = PNone \<or>
         (\<exists>ds. v = api_response_handler env (PList (map PDict ds)) ''escalation_policies'')"
proof (cases "call_get_api_client env s")
  case (Pair rc s1)
  show ?thesis
  proof (cases rc)
    case (Inl e)
    with Pair assms show ?thesis by (simp add: list_escalation_policies_def)
  next
    case (Inr c)
    obtain r2 s2 where tr: "list_try env c (build_params q u t l) s1 = (r2, s2)"
      by (cases "list_try env c (build_params q u t l) s1")
    show ?thesis
    proof (cases r2)
      case (Inl e)
      with Pair Inr tr assms have "except_handler env e s2 = (Inr v, s')"
        by (simp add: list_escalation_policies_def)
      from except_handler_result(2) [OF this] show ?thesis by simp
    next
      case r: (Inr v')
      with Pair Inr tr assms have "v' = v" "s2 = s'"
        by (simp_all add: list_escalation_policies_def)
      with r tr list_try_Inr [of env c "build_params q u t l" s1 v s'] show ?thesis
        by blast
    qed
  qed
qed

lemma envelope_list_count:
  "getitem (api_response_handler env (PList xs) ''escalation_policies'') ''escalation_policies'' =
     Inr (PList xs)"
  "metadata_count (api_response_handler env (PList xs) ''escalation_policies'') =
     Inr (PInt (int (length xs)))"
  by (simp_all add: api_response_handler_def metadata_count_def Let_def)

text \<open>
  C8. With no argument the request parameters are the empty dict, and once the client
  handle is obtained the one request of the call is the listing of \<^verbatim>\<open>/escalation_policies\<close>
  with these empty parameters. Whatever the arguments, a call that returns an envelope
  returns one whose list under \<^verbatim>\<open>escalation_policies\<close> has \<^verbatim>\<open>metadata.count\<close> elements.
\<close>

theorem list_no_arguments_and_count:
  "build_params None None None None = [] \<and>
   (\<forall>c s1 r s'.
      call_get_api_client env s = (Inr c, s1) \<longrightarrow>
      list_escalation_policies env None None None None s = (r, s') \<longrightarrow>
      filter is_request (trace s') =
        filter is_request (trace s) @ [ListAll ''/escalation_policies'' []]) \<and>
   (\<forall>v s'.
      list_escalation_policies env q u t l s = (Inr v, s') \<longrightarrow> v \<noteq> PNone \<longrightarrow>
      (\<exists>xs. getitem v ''escalation_policies'' = Inr (PList xs) \<and>
            metadata_count v = Inr (PInt (int (length xs)))))"
proof (intro conjI allI impI)
  show e: "build_params None None None None = []"
    by (simp add: build_params_def)
  fix c s1 r s'
  assume "call_get_api_client env s = (Inr c, s1)"
    and "list_escalation_policies env None None None None s = (r, s')"
  from list_requests [OF this] e
  show "filter is_request (trace s') =
      filter is_request (trace s) @ [ListAll ''/escalation_policies'' []]"
    by (simp add: ESCALATION_POLICIES_URL_def)
next
  fix v s'
  assume "list_escalation_policies env q u t l s = (Inr v, s')" and "v \<noteq> PNone"
  with list_Inr [of env q u t l s v s']
  obtain ds where "v = api_response_handler env (PList (map PDict ds)) ''escalation_policies''"
    by blast
  with envelope_list_count [of env "map PDict ds"]
  show "\<exists>xs. getitem v ''escalation_policies'' = Inr (PList xs) \<and>
      metadata_count v = Inr (PInt (int (length xs)))"
    by blast
qed

lemma demo_list_no_arguments:
  "list_escalation_policies demo_env None None None None s0 =
     (Inr (PDict
        [(''escalation_policies'',
          PList [PDict [(''id'', PStr ''EP1''), (''name'', PStr ''Primary'')],
                 PDict [(''id'', PStr ''EP2''), (''name'', PStr ''Secondary'')]]),
         (''metadata'',
          PDict [(''count'', PInt 2),
                 (''description'', PStr ''Found results for escalation_policies'')])]),
      \<lparr>world = 4,
         trace = [GetApiClient, ListAll ''/escalation_policies'' [],
                  ParseEscalationPolicy (raw_policy ''EP1'' ''Primary''),
                  ParseEscalationPolicy (raw_policy ''EP2'' ''Secondary'')]\<rparr>)"
  by (simp add: list_escalation_policies_def call_get_api_client_def record_call_def demo_env_def
      s0_def list_try_def build_params_def call_list_all_def ESCALATION_POLICIES_URL_def
      demo_list_all_def call_parse_def demo_parse_def raw_policy_def api_response_handler_def
      demo_description_def)

theorem list_no_arguments_and_count_witness:
  "call_get_api_client demo_env s0 = (Inr (), \<lparr>world = 1, trace = [GetApiClient]\<rparr>) \<and>
   filter is_request (trace (snd (list_escalation_policies demo_env None None None None s0))) =
     [ListAll ''/escalation_policies'' []] \<and>
   (\<exists>v s' xs. list_escalation_policies demo_env None None None None s0 = (Inr v, s') \<and>
      v \<noteq> PNone \<and> length xs = 2 \<and>
      getitem v ''escalation_policies'' = Inr (PList xs) \<and>
      metadata_count v = Inr (PInt (int (length xs))))"
proof -
  note main = list_no_arguments_and_count
    [where env = demo_env and s = s0 and q = None and u = None and t = None and l = None]
  obtain v s' where res: "list_escalation_policies demo_env None None None None s0 = (Inr v, s')"
    and v: "v \<noteq> PNone"
    and two: "\<And>xs. getitem v ''escalation_policies'' = Inr (PList xs) \<Longrightarrow> length xs = 2"
    using demo_list_no_arguments by simp
  from main demo_client res
  have req: "filter is_request (trace s') =
      filter is_request (trace s0) @ [ListAll ''/escalation_policies'' []]"
    by blast
  from main res v
  obtain xs where xs: "getitem v ''escalation_policies'' = Inr (PList xs)"
    "metadata_count v = Inr (PInt (int (length xs)))"
    by blast
  from two [OF xs(1)] xs res v req demo_client show ?thesis
    by (auto simp: s0_def)
qed








subsection \<open>Fetching the policy identifiers of a user\<close>

lemma project_ids_Inr:
  "project_ids rs = Inr ids \<longleftrightarrow> map (\<lambda>r. getitem r ''id'') rs = map Inr ids"
proof (induction rs arbitrary: ids)
  case Nil
  then show ?case by auto
next
  case (Cons r rs)
  show ?case
  proof (cases "getitem r ''id''")
    case (Inl e)
    then show ?thesis by auto
  next
    case (Inr i)
    show ?thesis
    proof (cases "project_ids rs")
      case pl: (Inl e)
      with Cons.IH have "\<And>ids'. map (\<lambda>r. getitem r ''id'') rs \<noteq> map Inr ids'"
        by simp
      with Inr pl show ?thesis by (cases ids) auto
    next
      case pr: (Inr ids')
      with Cons.IH [of ids'] have m: "map (\<lambda>r. getitem r ''id'') rs = map Inr ids'"
        by simp
      have "inj (Inr :: pyval \<Rightarrow> exn + pyval)" by (simp add: inj_def)
      then have "map (Inr :: pyval \<Rightarrow> exn + pyval) ids' = map Inr ys \<longleftrightarrow> ids' = ys" for ys
        by (simp add: inj_map_eq_map)
      with Inr pr m show ?thesis by (cases ids) auto
    qed
  qed
qed

lemma fetch_unfold:
  assumes "u \<noteq> []"
    and "list_escalation_policies env None (Some [u]) None None s = (Inr results, s1)"
    and "getitem results ''escalation_policies'' = Inr (PList rs)"
  shows "fetch_escalation_policy_ids env (Some u) s =
           (case project_ids rs of
              Inl e \<Rightarrow> except_handler env e s1
            | Inr ids \<Rightarrow> (Inr (PList ids), s1))"
  using assms
  by (simp add: fetch_escalation_policy_ids_def fetch_try_def split: sum.splits)

text \<open>
  C5. For a non-empty \<^verbatim>\<open>user_id\<close>, when the delegated listing returns an envelope whose
  \<^verbatim>\<open>escalation_policies\<close> is the list \<open>rs\<close> and every record of \<open>rs\<close> has an \<^verbatim>\<open>id\<close>, the call
  returns the list of these identifiers in the order of \<open>rs\<close>, in the state the listing
  left: nothing is raised and the router is not called. When \<open>rs\<close> is empty the call returns
  the empty list.
\<close>

theorem fetch_ids_in_order:
  assumes "u \<noteq> []"
    and "list_escalation_policies env None (Some [u]) None None s = (Inr results, s1)"
    and "getitem results ''escalation_policies'' = Inr (PList rs)"
  shows "(\<forall>ids. map (\<lambda>r. getitem r ''id'') rs = map Inr ids \<longrightarrow>
            fetch_escalation_policy_ids env (Some u) s = (Inr (PList ids), s1)) \<and>
         (rs = [] \<longrightarrow> fetch_escalation_policy_ids env (Some u) s = (Inr (PList []), s1))"
proof (intro conjI allI impI)
  fix ids
  assume "map (\<lambda>r. getitem r ''id'') rs = map Inr ids"
  then have "project_ids rs = Inr ids" by (simp add: project_ids_Inr)
  with fetch_unfold [OF assms]
  show "fetch_escalation_policy_ids env (Some u) s = (Inr (PList ids), s1)"
    by simp
next
  assume "rs = []"
  with fetch_unfold [OF assms]
  show "fetch_escalation_policy_ids env (Some u) s = (Inr (PList []), s1)"
    by simp
qed

lemmas demo_defs = list_escalation_policies_def call_get_api_client_def record_call_def
  demo_env_def s0_def list_try_def build_params_def call_list_all_def ESCALATION_POLICIES_URL_def
  demo_list_all_def call_parse_def demo_parse_def raw_policy_def api_response_handler_def
  demo_description_def

lemma demo_list_U1:
  "list_escalation_policies demo_env None (Some [''U1'']) None None s0 =
     (Inr (PDict
        [(''escalation_policies'',
          PList [PDict [(''id'', PStr ''EP1''), (''name'', PStr ''Primary'')],
                 PDict [(''id'', PStr ''EP2''), (''name'', PStr ''Secondary'')]]),
         (''metadata'',
          PDict [(''count'', PInt 2),
                 (''description'', PStr ''Found results for escalation_policies'')])]),
      \<lparr>world = 4,
         trace = [GetApiClient,
                  ListAll ''/escalation_policies'' [(''user_ids[]'', ListParam [''U1''])],
                  ParseEscalationPolicy (raw_policy ''EP1'' ''Primary''),
                  ParseEscalationPolicy (raw_policy ''EP2'' ''Secondary'')]\<rparr>)"
  by (simp add: demo_defs)

lemma demo_list_U0:
  "list_escalation_policies demo_env None (Some [''U0'']) None None s0 =
     (Inr (PDict
        [(''escalation_policies'', PList []),
         (''metadata'',
          PDict [(''count'', PInt 0),
                 (''description'', PStr ''Found results for escalation_policies'')])]),
      \<lparr>world = 2,
         trace = [GetApiClient,
                  ListAll ''/escalation_policies'' [(''user_ids[]'', ListParam [''U0''])]]\<rparr>)"
  by (simp add: demo_defs)

lemma demo_list_U9:
  "list_escalation_policies demo_env None (Some [''U9'']) None None s0 =
     (Inr (PDict
        [(''escalation_policies'',
          PList [PDict [(''id'', PStr ''EP1''), (''name'', PStr ''Primary'')],
                 PDict [(''name'', PStr ''Orphan'')]]),
         (''metadata'',
          PDict [(''count'', PInt 2),
                 (''description'', PStr ''Found results for escalation_policies'')])]),
      \<lparr>world = 4,
         trace = [GetApiClient,
                  ListAll ''/escalation_policies'' [(''user_ids[]'', ListParam [''U9''])],
                  ParseEscalationPolicy (raw_policy ''EP1'' ''Primary''),
                  ParseEscalationPolicy (PDict [(''name'', PStr ''Orphan'')])]\<rparr>)"
  by (simp add: demo_defs)

theorem fetch_ids_in_order_witness:
  "''U1'' \<noteq> [] \<and> ''U0'' \<noteq> [] \<and>
   fetch_escalation_policy_ids demo_env (Some ''U1'') s0 =
     (Inr (PList [PStr ''EP1'', PStr ''EP2'']),
      \<lparr>world = 4,
         trace = [GetApiClient,
                  ListAll ''/escalation_policies'' [(''user_ids[]'', ListParam [''U1''])],
                  ParseEscalationPolicy (raw_policy ''EP1'' ''Primary''),
                  ParseEscalationPolicy (raw_policy ''EP2'' ''Secondary'')]\<rparr>) \<and>
   fetch_escalation_policy_ids demo_env (Some ''U0'') s0 =
     (Inr (PList []),
      \<lparr>world = 2,
         trace = [GetApiClient,
                  ListAll ''/escalation_policies'' [(''user_ids[]'', ListParam [''U0''])]]\<rparr>)"
proof -
  let ?rs = "[PDict [(''id'', PStr ''EP1''), (''name'', PStr ''Primary'')],
              PDict [(''id'', PStr ''EP2''), (''name'', PStr ''Secondary'')]]"
  have n1: "''U1'' \<noteq> []" and n0: "''U0'' \<noteq> []" by simp_all
  have g1: "getitem (PDict
        [(''escalation_policies'', PList ?rs),
         (''metadata'',
          PDict [(''count'', PInt 2),
                 (''description'', PStr ''Found results for escalation_policies'')])])
      ''escalation_policies'' = Inr (PList ?rs)"
    by simp
  have g0: "getitem (PDict
        [(''escalation_policies'', PList []),
         (''metadata'',
          PDict [(''count'', PInt 0),
                 (''description'', PStr ''Found results for escalation_policies'')])])
      ''escalation_policies'' = Inr (PList [])"
    by simp
  have ids: "map (\<lambda>r. getitem r ''id'') ?rs = map Inr [PStr ''EP1'', PStr ''EP2'']"
    by simp
  note a = fetch_ids_in_order [OF n1 demo_list_U1 g1, THEN conjunct1, rule_format, OF ids]
  have a': "fetch_escalation_policy_ids demo_env (Some ''U1'') s0 =
     (Inr (PList [PStr ''EP1'', PStr ''EP2'']),
      \<lparr>world = 4,
         trace = [GetApiClient,
                  ListAll ''/escalation_policies'' [(''user_ids[]'', ListParam [''U1''])],
                  ParseEscalationPolicy (raw_policy ''EP1'' ''Primary''),
                  ParseEscalationPolicy (raw_policy ''EP2'' ''Secondary'')]\<rparr>)"
    by (rule a)
  note b = fetch_ids_in_order [OF n0 demo_list_U0 g0, THEN conjunct2, rule_format, OF refl]
  have b': "fetch_escalation_policy_ids demo_env (Some ''U0'') s0 =
     (Inr (PList []),
      \<lparr>world = 2,
         trace = [GetApiClient,
                  ListAll ''/escalation_policies'' [(''user_ids[]'', ListParam [''U0''])]]\<rparr>)"
    by (rule b)
  show ?thesis
    by (intro conjI n1 n0 a' b')
qed

text \<open>
  C6, as the specification words it, does not hold: the test of line 128 and its
  \<^verbatim>\<open>raise\<close> stand before the \<^verbatim>\<open>try\<close> of line 131, so the handler of line 134 never sees
  this ValueError. In the example world the router would have turned it into a
  RuntimeError and have left an event in the trace; the call does neither.
\<close>

theorem fetch_empty_user_id_not_rerouted:
  "fetch_escalation_policy_ids demo_env None s0 =
     (Inl (ValueError ''user_id cannot be empty''), s0) \<and>
   fetch_escalation_policy_ids demo_env (Some []) s0 =
     (Inl (ValueError ''user_id cannot be empty''), s0) \<and>
   except_handler demo_env (ValueError ''user_id cannot be empty'') s0 =
     (Inl (RuntimeError ''API request failed''),
      \<lparr>world = 1, trace = [HandleApiError (ValueError ''user_id cannot be empty'')]\<rparr>) \<and>
   fetch_escalation_policy_ids demo_env None s0 \<noteq>
     except_handler demo_env (ValueError ''user_id cannot be empty'') s0 \<and>
   fetch_escalation_policy_ids demo_env (Some []) s0 \<noteq>
     except_handler demo_env (ValueError ''user_id cannot be empty'') s0"
  by (simp add: fetch_escalation_policy_ids_def except_handler_def call_handle_api_error_def
      record_call_def demo_env_def demo_handle_api_error_def s0_def)

text \<open>
  C6, amended. A call of \<^verbatim>\<open>fetch_escalation_policy_ids\<close> whose \<^verbatim>\<open>user_id\<close> is \<^verbatim>\<open>None\<close> or the
  empty string raises the ValueError of line 129 to its caller as it is, and leaves the
  state as it found it: no client, no request, no call of the router.
\<close>

theorem fetch_empty_user_id_raises_directly:
  "user_id = None \<or> user_id = Some [] \<Longrightarrow>
   fetch_escalation_policy_ids env user_id s = (Inl (ValueError ''user_id cannot be empty''), s)"
  by (auto simp: fetch_escalation_policy_ids_def)

theorem fetch_empty_user_id_raises_directly_witness:
  "((None :: string option) = None \<or> (None :: string option) = Some []) \<and>
   fetch_escalation_policy_ids demo_env None s0 =
     (Inl (ValueError ''user_id cannot be empty''), s0) \<and>
   trace s0 = []"
  using fetch_empty_user_id_raises_directly [of None demo_env s0]
  by (simp add: s0_def)

lemma project_ids_Inl:
  "project_ids rs = Inl e \<Longrightarrow> \<exists>r \<in> set rs. getitem r ''id'' = Inl e"
proof (induction rs)
  case Nil
  then show ?case by simp
next
  case (Cons r rs)
  show ?case
  proof (cases "getitem r ''id''")
    case (Inl e')
    with Cons.prems have "e' = e" by simp
    with Inl show ?thesis by simp
  next
    case (Inr i)
    with Cons.prems have "project_ids rs = Inl e"
      by (cases "project_ids rs") simp_all
    with Cons.IH show ?thesis by simp
  qed
qed

lemma project_ids_fails:
  "r \<in> set rs \<Longrightarrow> getitem r ''id'' = Inl e \<Longrightarrow> \<exists>e'. project_ids rs = Inl e'"
proof (induction rs)
  case Nil
  then show ?case by simp
next
  case (Cons a rs)
  show ?case
  proof (cases "getitem a ''id''")
    case (Inl e')
    then show ?thesis by simp
  next
    case (Inr i)
    with Cons.prems have "r \<in> set rs" by auto
    with Cons.IH Cons.prems(2) obtain e' where "project_ids rs = Inl e'" by blast
    with Inr show ?thesis by simp
  qed
qed

text \<open>
  C10. For a non-empty \<^verbatim>\<open>user_id\<close>, when the delegated listing returns an envelope whose
  \<^verbatim>\<open>escalation_policies\<close> is the list \<open>rs\<close> and some record of \<open>rs\<close> is a dict without \<^verbatim>\<open>id\<close>,
  the projection raises, the handler of line 134 passes the exception to the router, and
  the call does not return a list of identifiers. When every record is a dict, the
  exception is the KeyError of the key \<^verbatim>\<open>id\<close>.
\<close>

theorem fetch_missing_id_is_routed:
  assumes "u \<noteq> []"
    and "list_escalation_policies env None (Some [u]) None None s = (Inr results, s1)"
    and "getitem results ''escalation_policies'' = Inr (PList rs)"
    and "PDict kvs \<in> set rs" and "map_of kvs ''id'' = None"
  shows "\<exists>e. project_ids rs = Inl e \<and>
           fetch_escalation_policy_ids env (Some u) s = except_handler env e s1 \<and>
           trace (snd (fetch_escalation_policy_ids env (Some u) s)) =
             trace s1 @ [HandleApiError e] \<and>
           (\<forall>ids. fst (fetch_escalation_policy_ids env (Some u) s) \<noteq> Inr (PList ids)) \<and>
           ((\<forall>r \<in> set rs. \<exists>d. r = PDict d) \<longrightarrow> e = KeyError ''id'')"
proof -
  have "getitem (PDict kvs) ''id'' = Inl (KeyError ''id'')"
    using assms(5) by simp
  from project_ids_fails [OF assms(4) this]
  obtain e where e: "project_ids rs = Inl e" by blast
  with fetch_unfold [OF assms(1-3)]
  have f: "fetch_escalation_policy_ids env (Some u) s = except_handler env e s1"
    by simp
  obtain r s' where eh: "except_handler env e s1 = (r, s')"
    by (cases "except_handler env e s1")
  note res = except_handler_result [OF eh]
  have tr: "trace (snd (fetch_escalation_policy_ids env (Some u) s)) = trace s1 @ [HandleApiError e]"
    using f eh res(1) by simp
  have no: "fst (fetch_escalation_policy_ids env (Some u) s) \<noteq> Inr (PList ids)" for ids
  proof
    assume "fst (fetch_escalation_policy_ids env (Some u) s) = Inr (PList ids)"
    with f eh have "r = Inr (PList ids)" by simp
    with res(2) show False by simp
  qed
  have key: "e = KeyError ''id''" if "\<forall>r \<in> set rs. \<exists>d. r = PDict d"
  proof -
    from project_ids_Inl [OF e] obtain r where "r \<in> set rs" "getitem r ''id'' = Inl e"
      by blast
    from that \<open>r \<in> set rs\<close> obtain d where "r = PDict d" by blast
    with \<open>getitem r ''id'' = Inl e\<close> have "getitem (PDict d) ''id'' = Inl e" by simp
    then show ?thesis by (cases "map_of d ''id''") simp_all
  qed
  show ?thesis
  proof (intro exI conjI allI impI)
    show "project_ids rs = Inl e" by (rule e)
    show "fetch_escalation_policy_ids env (Some u) s = except_handler env e s1" by (rule f)
    show "trace (snd (fetch_escalation_policy_ids env (Some u) s)) = trace s1 @ [HandleApiError e]"
      by (rule tr)
    show "fst (fetch_escalation_policy_ids env (Some u) s) \<noteq> Inr (PList ids)" for ids
      by (rule no)
    show "e = KeyError ''id''" if "\<forall>r \<in> set rs. \<exists>d. r = PDict d"
      using that by (rule key)
  qed
qed

theorem fetch_missing_id_is_routed_witness:
  "''U9'' \<noteq> [] \<and>
   map_of [(''name'', PStr ''Orphan'')] ''id'' = None \<and>
   fetch_escalation_policy_ids demo_env (Some ''U9'') s0 =
     (Inl (RuntimeError ''API request failed''),
      \<lparr>world = 5,
         trace = [GetApiClient,
                  ListAll ''/escalation_policies'' [(''user_ids[]'', ListParam [''U9''])],
                  ParseEscalationPolicy (raw_policy ''EP1'' ''Primary''),
                  ParseEscalationPolicy (PDict [(''name'', PStr ''Orphan'')]),
                  HandleApiError (KeyError ''id'')]\<rparr>)"
proof -
  let ?rs = "[PDict [(''id'', PStr ''EP1''), (''name'', PStr ''Primary'')],
              PDict [(''name'', PStr ''Orphan'')]]"
  let ?s1 = "\<lparr>world = 4,
         trace = [GetApiClient,
                  ListAll ''/escalation_policies'' [(''user_ids[]'', ListParam [''U9''])],
                  ParseEscalationPolicy (raw_policy ''EP1'' ''Primary''),
                  ParseEscalationPolicy (PDict [(''name'', PStr ''Orphan'')])]\<rparr> :: nat sys"
  have n: "''U9'' \<noteq> []" by simp
  have g: "getitem (PDict
        [(''escalation_policies'', PList ?rs),
         (''metadata'',
          PDict [(''count'', PInt 2),
                 (''description'', PStr ''Found results for escalation_policies'')])])
      ''escalation_policies'' = Inr (PList ?rs)"
    by simp
  have m: "PDict [(''name'', PStr ''Orphan'')] \<in> set ?rs" by simp
  have k: "map_of [(''name'', PStr ''Orphan'')] ''id'' = (None :: pyval option)" by simp
  have d: "\<forall>r \<in> set ?rs. \<exists>d. r = PDict d" by simp
  from fetch_missing_id_is_routed [OF n demo_list_U9 g m k]
  obtain e where e: "fetch_escalation_policy_ids demo_env (Some ''U9'') s0 =
      except_handler demo_env e ?s1"
    and "(\<forall>r \<in> set ?rs. \<exists>d. r = PDict d) \<longrightarrow> e = KeyError ''id''"
    by (elim exE conjE)
  with d have "e = KeyError ''id''" by (elim impE) assumption
  with e have f: "fetch_escalation_policy_ids demo_env (Some ''U9'') s0 =
      except_handler demo_env (KeyError ''id'') ?s1"
    by simp
  have eh: "except_handler demo_env (KeyError ''id'') ?s1 =
     (Inl (RuntimeError ''API request failed''),
      \<lparr>world = 5,
         trace = [GetApiClient,
                  ListAll ''/escalation_policies'' [(''user_ids[]'', ListParam [''U9''])],
                  ParseEscalationPolicy (raw_policy ''EP1'' ''Primary''),
                  ParseEscalationPolicy (PDict [(''name'', PStr ''Orphan'')]),
                  HandleApiError (KeyError ''id'')]\<rparr>)"
    by (simp add: except_handler_def call_handle_api_error_def record_call_def demo_env_def
        demo_handle_api_error_def)
  from f eh have "fetch_escalation_policy_ids demo_env (Some ''U9'') s0 =
     (Inl (RuntimeError ''API request failed''),
      \<lparr>world = 5,
         trace = [GetApiClient,
                  ListAll ''/escalation_policies'' [(''user_ids[]'', ListParam [''U9''])],
                  ParseEscalationPolicy (raw_policy ''EP1'' ''Primary''),
                  ParseEscalationPolicy (PDict [(''name'', PStr ''Orphan'')]),
                  HandleApiError (KeyError ''id'')]\<rparr>)"
    by (simp only:)
  with n k show ?thesis by (intro conjI)
qed

end
